theory Spec2Isabelle
  imports Complex_Main
begin

section \<open>The game hook \<open>useGameLogic\<close> of src/hooks/useGameLogic.ts\<close>

text \<open>
  The hook keeps four React state cells (\<open>gameState\<close>, \<open>score\<close>, \<open>highScore\<close>,
  \<open>isMuted\<close>) and four mutable references (\<open>birdRef\<close>, \<open>pipesRef\<close>,
  \<open>lastPipeSpawnRef\<close>, \<open>audioRef\<close>). Here they are the fields of one record that every
  callback of the hook takes and returns.

  JavaScript numbers are idealised as the reals: every constant of the source (0.4, 2.5,
  0.04, 0.1) is taken as the rational it denotes and \<open>+\<close>, \<open>-\<close>, \<open>*\<close> are exact. The two
  counters \<open>score\<close> and \<open>highScore\<close> only ever hold integers, and \<open>Date.now()\<close> is an
  integer number of milliseconds, so they are \<open>int\<close>.

  What a callback reads from outside the hook is a parameter of its model: the canvas
  behind \<open>canvasRef\<close> (absent while the reference is null), the clock value \<open>Date.now()\<close>
  and the draw of \<open>Math.random()\<close>.

  Drawing on the canvas, the scheduling of the next animation frame and the one-shot
  sound cues of \<open>playSound\<close> change none of the cells modelled here and are left out. Of
  the audio elements only the looping background track is kept, as the flag
  \<open>bgmPlaying\<close>: the last request made on it (\<open>play()\<close> sets it, \<open>pause()\<close> clears it).
\<close>

subsection \<open>Data\<close>

record Bird =
  y :: real
  velocity :: real
  rotation :: real

record Pipe =
  x :: real
  topHeight :: real
  passed :: bool

text \<open>The literal boxes built inside \<open>checkCollision\<close>; \<open>top'\<close> is the field \<open>top\<close>.\<close>

record Box =
  top' :: real
  bottom :: real
  left :: real
  right :: real

record Canvas =
  width :: real
  height :: real

datatype GameState = idle | playing | gameOver

record Hook =
  gameState :: GameState
  score :: int
  highScore :: int
  isMuted :: bool
  birdRef :: Bird
  pipesRef :: "Pipe list"
  lastPipeSpawnRef :: int
  bgmPlaying :: bool

definition GRAVITY :: real where "GRAVITY = 0.4"
definition JUMP_FORCE :: real where "JUMP_FORCE = - 8"
definition BIRD_SIZE :: real where "BIRD_SIZE = 30"
definition PIPE_WIDTH :: real where "PIPE_WIDTH = 60"
definition PIPE_GAP :: real where "PIPE_GAP = 170"
definition PIPE_SPEED :: real where "PIPE_SPEED = 2.5"

text \<open>The values of the \<open>useState\<close> and \<open>useRef\<close> initialisers.\<close>

definition initial :: Hook where
  "initial = \<lparr> gameState = idle, score = 0, highScore = 0, isMuted = False,
     birdRef = \<lparr> y = 300, velocity = 0, rotation = 0 \<rparr>, pipesRef = [],
     lastPipeSpawnRef = 0, bgmPlaying = False \<rparr>"

subsection \<open>Audio\<close>

definition toggleMute :: "Hook \<Rightarrow> Hook" where
  "toggleMute s =
     (let newMuted = \<not> isMuted s;
          s1 = (if newMuted then s\<lparr> bgmPlaying := False \<rparr> else s\<lparr> bgmPlaying := True \<rparr>)
      in s1\<lparr> isMuted := newMuted \<rparr>)"

subsection \<open>Obstacles and collision\<close>

definition generatePipe :: "Canvas \<Rightarrow> real \<Rightarrow> Pipe" where
  "generatePipe canvas rnd =
     (let minHeight = 100;
          maxHeight = height canvas - PIPE_GAP - minHeight;
          th = rnd * (maxHeight - minHeight) + minHeight
      in \<lparr> x = width canvas, topHeight = th, passed = False \<rparr>)"

definition birdBox :: "Bird \<Rightarrow> Box" where
  "birdBox bird = \<lparr> top' = y bird + 5, bottom = y bird + BIRD_SIZE - 5,
     left = 50 + 5, right = 50 + BIRD_SIZE - 5 \<rparr>"

definition topPipeBox :: "Pipe \<Rightarrow> Box" where
  "topPipeBox pipe = \<lparr> top' = 0, bottom = topHeight pipe,
     left = x pipe, right = x pipe + PIPE_WIDTH \<rparr>"

definition bottomPipeBox :: "Canvas \<Rightarrow> Pipe \<Rightarrow> Box" where
  "bottomPipeBox canvas pipe = \<lparr> top' = topHeight pipe + PIPE_GAP, bottom = height canvas,
     left = x pipe, right = x pipe + PIPE_WIDTH \<rparr>"

definition collidesWithPipe :: "Box \<Rightarrow> Box \<Rightarrow> bool" where
  "collidesWithPipe box pipeBox =
     (\<not> (right box < left pipeBox \<or> left box > right pipeBox \<or>
         bottom box < top' pipeBox \<or> top' box > bottom pipeBox))"

definition checkCollision :: "Canvas \<Rightarrow> Bird \<Rightarrow> Pipe \<Rightarrow> bool" where
  "checkCollision canvas bird pipe =
     (collidesWithPipe (birdBox bird) (topPipeBox pipe) \<or>
      collidesWithPipe (birdBox bird) (bottomPipeBox canvas pipe) \<or>
      y bird \<le> 0 \<or>
      y bird + BIRD_SIZE \<ge> height canvas)"

subsection \<open>The frame callback \<open>gameLoop\<close>\<close>

text \<open>Lines 189 to 194: gravity, then the position, then the smoothed tilt.\<close>

definition updateBird :: "Bird \<Rightarrow> Bird" where
  "updateBird bird =
     (let b1 = bird\<lparr> velocity := velocity bird + GRAVITY \<rparr>;
          b2 = b1\<lparr> y := y b1 + velocity b1 \<rparr>;
          targetRotation = velocity b2 * 0.04
      in b2\<lparr> rotation := rotation b2 + (targetRotation - rotation b2) * 0.1 \<rparr>)"

text \<open>Lines 197 to 201: one obstacle is pushed when more than 1800 ms have passed.\<close>

definition spawnPipe :: "Canvas \<Rightarrow> int \<Rightarrow> real \<Rightarrow> Hook \<Rightarrow> Hook" where
  "spawnPipe canvas now rnd s =
     (if now - lastPipeSpawnRef s > 1800
      then s\<lparr> pipesRef := pipesRef s @ [generatePipe canvas rnd], lastPipeSpawnRef := now \<rparr>
      else s)"

text \<open>Line 203: the filter on the horizontal position.\<close>

definition prunePipes :: "Pipe list \<Rightarrow> Pipe list" where
  "prunePipes ps = filter (\<lambda>pipe. x pipe > - PIPE_WIDTH) ps"

text \<open>
  Lines 204 to 212: the body of the \<open>forEach\<close> callback, on one obstacle and the pending
  score (each \<open>setScore(prev => prev + 1)\<close> adds one to it), and the loop over the list.
\<close>

definition scrollPipe :: "Pipe \<Rightarrow> int \<Rightarrow> Pipe \<times> int" where
  "scrollPipe pipe sc =
     (let p1 = pipe\<lparr> x := x pipe - PIPE_SPEED \<rparr>
      in if \<not> passed p1 \<and> x p1 + PIPE_WIDTH < 50
         then (p1\<lparr> passed := True \<rparr>, sc + 1)
         else (p1, sc))"

fun scrollPipes :: "Pipe list \<Rightarrow> int \<Rightarrow> Pipe list \<times> int" where
  "scrollPipes [] sc = ([], sc)"
| "scrollPipes (pipe # ps) sc =
     (case scrollPipe pipe sc of
        (pipe1, sc1) \<Rightarrow> (case scrollPipes ps sc1 of (ps1, sc2) \<Rightarrow> (pipe1 # ps1, sc2)))"

text \<open>
  The callback is memoised on \<open>gameState\<close> and \<open>score\<close> and is scheduled afresh after
  every render, so the \<open>gameState\<close> and the \<open>score\<close> it closes over are those of the record
  at the start of the frame. The updates it queues with \<open>setScore\<close> reach the \<open>score\<close>
  cell, but not the \<open>score\<close> of its own closure, which is the one line 217 reads.
\<close>

definition gameLoop :: "Canvas option \<Rightarrow> int \<Rightarrow> real \<Rightarrow> Hook \<Rightarrow> Hook" where
  "gameLoop canvasRef now rnd s =
     (case canvasRef of
        None \<Rightarrow> s
      | Some canvas \<Rightarrow>
          if gameState s \<noteq> playing then s
          else
            let s1 = s\<lparr> birdRef := updateBird (birdRef s) \<rparr>;
                s2 = spawnPipe canvas now rnd s1;
                (ps, sc) = scrollPipes (prunePipes (pipesRef s2)) (score s2);
                s3 = s2\<lparr> pipesRef := ps, score := sc \<rparr>
            in if list_ex (\<lambda>pipe. checkCollision canvas (birdRef s3) pipe) (pipesRef s3)
               then s3\<lparr> gameState := gameOver, highScore := max (highScore s3) (score s) \<rparr>
               else s3)"

subsection \<open>Starting a run and the input handlers\<close>

definition startGame :: "int \<Rightarrow> Hook \<Rightarrow> Hook" where
  "startGame now s =
     (let s1 = s\<lparr> birdRef := \<lparr> y = 300, velocity = 0, rotation = 0 \<rparr>, pipesRef := [],
                  lastPipeSpawnRef := now, score := 0, gameState := playing \<rparr>
      in if \<not> isMuted s then s1\<lparr> bgmPlaying := True \<rparr> else s1)"

definition handleClick :: "Hook \<Rightarrow> Hook" where
  "handleClick s =
     (if gameState s = playing
      then s\<lparr> birdRef := (birdRef s)\<lparr> velocity := JUMP_FORCE \<rparr> \<rparr>
      else s)"

definition handleKeyPress :: "string \<Rightarrow> Hook \<Rightarrow> Hook" where
  "handleKeyPress code s = (if code = ''Space'' then handleClick s else s)"

subsection \<open>Sessions\<close>

text \<open>
  What the host can do to the hook: run the frame callback (with the canvas, the clock
  and the random draw it will read), press the start button (with the clock), click the
  canvas, press a key, press the mute button. A session is a list of such events played
  from left to right, starting from the initial values of the cells.
\<close>

datatype Event =
    Frame "Canvas option" int real
  | Start int
  | Click
  | KeyDown string
  | ToggleMute

fun react :: "Event \<Rightarrow> Hook \<Rightarrow> Hook" where
  "react (Frame canvasRef now rnd) s = gameLoop canvasRef now rnd s"
| "react (Start now) s = startGame now s"
| "react Click s = handleClick s"
| "react (KeyDown code) s = handleKeyPress code s"
| "react ToggleMute s = toggleMute s"

definition run :: "Event list \<Rightarrow> Hook \<Rightarrow> Hook" where
  "run evs s = fold react evs s"

subsection \<open>The collision contract in the words of the specification\<close>

text \<open>
  The specification describes the detector by boxes: the bird's full box, the same box
  inset by a margin, the two segments of an obstacle, and overlap of the projections on
  both axes. These definitions follow that description, not the source; the theorem on
  \<open>checkCollision\<close> below compares the two.
\<close>

definition fullBox :: "Bird \<Rightarrow> Box" where
  "fullBox bird = \<lparr> top' = y bird, bottom = y bird + 30, left = 50, right = 50 + 30 \<rparr>"

definition inset :: "real \<Rightarrow> Box \<Rightarrow> Box" where
  "inset m box = \<lparr> top' = top' box + m, bottom = bottom box - m,
     left = left box + m, right = right box - m \<rparr>"

definition overlapOnBothAxes :: "Box \<Rightarrow> Box \<Rightarrow> bool" where
  "overlapOnBothAxes a b =
     ((left a \<le> right b \<and> left b \<le> right a) \<and> (top' a \<le> bottom b \<and> top' b \<le> bottom a))"

definition specCollision :: "Canvas \<Rightarrow> Bird \<Rightarrow> Pipe \<Rightarrow> bool" where
  "specCollision canvas bird pipe =
     (overlapOnBothAxes (inset 5 (fullBox bird))
        \<lparr> top' = 0, bottom = topHeight pipe, left = x pipe, right = x pipe + 60 \<rparr> \<or>
      overlapOnBothAxes (inset 5 (fullBox bird))
        \<lparr> top' = topHeight pipe + 170, bottom = height canvas,
          left = x pipe, right = x pipe + 60 \<rparr> \<or>
      top' (fullBox bird) \<le> 0 \<or>
      height canvas \<le> bottom (fullBox bird))"

subsection \<open>One obstacle over several frames\<close>

text \<open>
  Auxiliary notions for stating what the loop does. \<open>movePipe\<close> is the obstacle that one
  call of the \<open>forEach\<close> callback leaves, and \<open>crossing\<close> holds when that call credits the
  score. \<open>scrollFrames n\<close> applies the callback to the same obstacle on \<open>n\<close> successive
  frames, and \<open>pipesAfter n\<close> is the obstacle list after \<open>n\<close> frames on which nothing is
  spawned (line 203 followed by lines 204 to 212, \<open>n\<close> times).
\<close>

definition movePipe :: "Pipe \<Rightarrow> Pipe" where
  "movePipe pipe = pipe\<lparr> x := x pipe - PIPE_SPEED,
     passed := (passed pipe \<or> x pipe - PIPE_SPEED + PIPE_WIDTH < 50) \<rparr>"

definition crossing :: "Pipe \<Rightarrow> bool" where
  "crossing pipe = (\<not> passed pipe \<and> x pipe - PIPE_SPEED + PIPE_WIDTH < 50)"

fun scrollFrames :: "nat \<Rightarrow> Pipe \<Rightarrow> int \<Rightarrow> Pipe \<times> int" where
  "scrollFrames 0 pipe sc = (pipe, sc)"
| "scrollFrames (Suc n) pipe sc =
     (case scrollPipe pipe sc of (pipe1, sc1) \<Rightarrow> scrollFrames n pipe1 sc1)"

fun pipesAfter :: "nat \<Rightarrow> Pipe list \<Rightarrow> Pipe list" where
  "pipesAfter 0 ps = ps"
| "pipesAfter (Suc n) ps = pipesAfter n (fst (scrollPipes (prunePipes ps) 0))"

subsection \<open>Evaluating long sessions\<close>

text \<open>
  The tilt of the bird is read by the drawing code only: no test and no other field
  depends on it. \<open>flat\<close> sets it to 0 and \<open>flatStep\<close> does so after every event, which
  keeps the numbers of a long session small; the lemma \<open>flat_run\<close> below shows that all
  other fields are those of the session itself.

  \<open>slowDevice\<close> is a session on the 400 by 600 canvas of a device that renders one frame
  every 52 ms: the start button at time 0, then frames 1 to 198, with a click before
  frames 1, 40, 79, 118, 157 and 196. An obstacle is spawned every 35 frames (1820 ms),
  on frames 35, 70, 105, 140 and 175, so consecutive obstacles are 87.5 units apart. The
  draw is 0.99 for the second obstacle (\<open>topHeight\<close> 327.7) and 0.5 for the others
  (\<open>topHeight\<close> 215).
\<close>

definition flat :: "Hook \<Rightarrow> Hook" where
  "flat s = s\<lparr> birdRef := (birdRef s)\<lparr> rotation := 0 \<rparr> \<rparr>"

definition flatStep :: "Event \<Rightarrow> Hook \<Rightarrow> Hook" where
  "flatStep e s = flat (react e s)"

definition slowDevice :: "Event list" where
  "slowDevice = Start 0 # concat (map (\<lambda>i. (if i mod 39 = 1 then [Click] else []) @
       [Frame (Some \<lparr>width = 400, height = 600\<rparr>) (52 * i) (if i = 70 then 0.99 else 0.5)])
       [1..198])"

section \<open>Properties\<close>

subsection \<open>Auxiliary facts\<close>

lemmas game_constants = GRAVITY_def JUMP_FORCE_def BIRD_SIZE_def PIPE_WIDTH_def PIPE_GAP_def
  PIPE_SPEED_def

lemmas collision_defs = checkCollision_def collidesWithPipe_def birdBox_def topPipeBox_def
  bottomPipeBox_def

lemmas session_defs = run_def gameLoop_def updateBird_def spawnPipe_def prunePipes_def
  scrollPipe_def generatePipe_def startGame_def handleClick_def handleKeyPress_def
  toggleMute_def initial_def Let_def

lemma scrollPipe_eq:
  "scrollPipe pipe sc = (movePipe pipe, sc + (if crossing pipe then 1 else 0))"
  by (cases pipe) (simp add: scrollPipe_def movePipe_def crossing_def Let_def)

lemma scrollPipes_eq:
  "scrollPipes ps sc = (map movePipe ps, sc + int (length (filter crossing ps)))"
  by (induction ps arbitrary: sc) (simp_all add: scrollPipe_eq)

lemma scrollFrames_eq:
  "scrollFrames n pipe sc =
     (pipe\<lparr> x := x pipe - real n * PIPE_SPEED,
            passed := (passed pipe \<or> (0 < n \<and> x pipe - real n * PIPE_SPEED + PIPE_WIDTH < 50)) \<rparr>,
      sc + (if \<not> passed pipe \<and> 0 < n \<and> x pipe - real n * PIPE_SPEED + PIPE_WIDTH < 50
            then 1 else 0))"
proof (induction n arbitrary: pipe sc)
  case 0
  show ?case by simp
next
  case (Suc n)
  show ?case
    by (cases pipe)
      (auto simp: scrollPipe_eq movePipe_def crossing_def Suc game_constants algebra_simps)
qed

text \<open>A frame that runs, with the \<open>forEach\<close> loop replaced by its closed form.\<close>

lemma gameLoop_playing:
  "gameState s = playing \<Longrightarrow>
   gameLoop (Some canvas) now rnd s =
     (let s2 = spawnPipe canvas now rnd (s\<lparr> birdRef := updateBird (birdRef s) \<rparr>);
          s3 = s2\<lparr> pipesRef := map movePipe (prunePipes (pipesRef s2)),
                    score := score s2 + int (length (filter crossing (prunePipes (pipesRef s2)))) \<rparr>
      in if list_ex (checkCollision canvas (birdRef s3)) (pipesRef s3)
         then s3\<lparr> gameState := gameOver, highScore := max (highScore s3) (score s) \<rparr>
         else s3)"
  by (simp add: gameLoop_def scrollPipes_eq Let_def)

lemma gameLoop_pipesRef:
  "gameState s = playing \<Longrightarrow>
   pipesRef (gameLoop (Some canvas) now rnd s) =
     map movePipe (prunePipes (if now - lastPipeSpawnRef s > 1800
                               then pipesRef s @ [generatePipe canvas rnd] else pipesRef s))"
  by (simp add: gameLoop_playing spawnPipe_def Let_def)

lemma gameLoop_score:
  "gameState s = playing \<Longrightarrow>
   score (gameLoop (Some canvas) now rnd s) =
     score s + int (length (filter crossing
       (prunePipes (if now - lastPipeSpawnRef s > 1800
                    then pipesRef s @ [generatePipe canvas rnd] else pipesRef s))))"
  by (simp add: gameLoop_playing spawnPipe_def Let_def)

lemma gameLoop_lastPipeSpawnRef:
  "gameState s = playing \<Longrightarrow>
   lastPipeSpawnRef (gameLoop (Some canvas) now rnd s) =
     (if now - lastPipeSpawnRef s > 1800 then now else lastPipeSpawnRef s)"
  by (simp add: gameLoop_playing spawnPipe_def Let_def)

lemma gameLoop_birdRef:
  "gameState s = playing \<Longrightarrow>
   birdRef (gameLoop (Some canvas) now rnd s) = updateBird (birdRef s)"
  by (simp add: gameLoop_playing spawnPipe_def Let_def)

lemma gameLoop_not_playing:
  "gameState s \<noteq> playing \<Longrightarrow> gameLoop canvasRef now rnd s = s"
  by (simp add: gameLoop_def split: option.splits)

lemma gameLoop_no_canvas: "gameLoop None now rnd s = s"
  by (simp add: gameLoop_def)

text \<open>
  The frame ends the run exactly when some obstacle that survived the filter reports a
  collision, and the high score then takes the score the frame started with.
\<close>

lemma gameLoop_gameOver_iff:
  "gameState s = playing \<Longrightarrow>
   gameState (gameLoop (Some canvas) now rnd s) = gameOver \<longleftrightarrow>
     list_ex (checkCollision canvas (updateBird (birdRef s)))
       (pipesRef (gameLoop (Some canvas) now rnd s))"
  by (simp add: gameLoop_playing spawnPipe_def Let_def)

lemma gameLoop_highScore:
  "gameState s = playing \<Longrightarrow> gameState (gameLoop (Some canvas) now rnd s) = gameOver \<Longrightarrow>
   highScore (gameLoop (Some canvas) now rnd s) = max (highScore s) (score s)"
  by (simp add: gameLoop_playing spawnPipe_def Let_def split: if_splits)

subsection \<open>One obstacle alone in the list\<close>

lemma pipesAfter_Nil: "pipesAfter n [] = []"
  by (induction n) (simp_all add: prunePipes_def)

lemma movePipe_x: "x (movePipe pipe) = x pipe - PIPE_SPEED"
  by (simp add: movePipe_def)

lemma movePipe_funpow_x: "x ((movePipe ^^ n) pipe) = x pipe - real n * PIPE_SPEED"
  by (induction n) (simp_all add: movePipe_x algebra_simps)

lemma pipesAfter_single:
  "pipesAfter n [pipe] =
     (if n = 0 \<or> x pipe - real (n - 1) * PIPE_SPEED > - PIPE_WIDTH
      then [(movePipe ^^ n) pipe] else [])"
proof (induction n arbitrary: pipe)
  case 0
  show ?case by simp
next
  case (Suc n)
  show ?case
  proof (cases "x pipe > - PIPE_WIDTH")
    case True
    then have "pipesAfter (Suc n) [pipe] = pipesAfter n [movePipe pipe]"
      by (simp add: prunePipes_def scrollPipes_eq)
    also have "\<dots> = (if n = 0 \<or> x (movePipe pipe) - real (n - 1) * PIPE_SPEED > - PIPE_WIDTH
      then [(movePipe ^^ n) (movePipe pipe)] else [])"
      by (rule Suc)
    finally show ?thesis using True
      by (cases n) (auto simp: movePipe_x funpow_swap1 algebra_simps PIPE_SPEED_def)
  next
    case False
    then have "pipesAfter (Suc n) [pipe] = []"
      by (simp add: prunePipes_def pipesAfter_Nil)
    moreover have "\<not> x pipe - real n * PIPE_SPEED > - PIPE_WIDTH"
    proof -
      have "0 \<le> real n * PIPE_SPEED" by (simp add: PIPE_SPEED_def)
      with False show ?thesis by linarith
    qed
    ultimately show ?thesis by simp
  qed
qed

subsection \<open>Flagged obstacles lie left of the bird\<close>

lemma movePipe_inv:
  "(passed pipe \<longrightarrow> x pipe + PIPE_WIDTH < 50) \<Longrightarrow>
   passed (movePipe pipe) \<longrightarrow> x (movePipe pipe) + PIPE_WIDTH < 50"
  by (auto simp: movePipe_def PIPE_SPEED_def)

lemma generatePipe_not_passed: "\<not> passed (generatePipe canvas rnd)"
  by (simp add: generatePipe_def Let_def)

lemma react_inv:
  assumes "\<forall>p\<in>set (pipesRef s). passed p \<longrightarrow> x p + PIPE_WIDTH < 50"
  shows "\<forall>p\<in>set (pipesRef (react e s)). passed p \<longrightarrow> x p + PIPE_WIDTH < 50"
proof (cases e)
  case (Frame canvasRef now rnd)
  show ?thesis
  proof (cases "gameState s = playing \<and> canvasRef \<noteq> None")
    case True
    then obtain canvas where c: "canvasRef = Some canvas" by auto
    from True have pl: "gameState s = playing" by simp
    show ?thesis
      using assms movePipe_inv
      by (auto simp: Frame c gameLoop_pipesRef [OF pl] prunePipes_def generatePipe_not_passed)
  next
    case False
    then have "gameLoop canvasRef now rnd s = s"
      by (auto simp: gameLoop_not_playing gameLoop_no_canvas)
    with assms show ?thesis by (simp add: Frame)
  qed
next
  case (Start now)
  show ?thesis by (simp add: Start startGame_def Let_def)
next
  case Click
  with assms show ?thesis by (simp add: handleClick_def)
next
  case (KeyDown code)
  with assms show ?thesis by (simp add: handleKeyPress_def handleClick_def)
next
  case ToggleMute
  with assms show ?thesis by (simp add: toggleMute_def Let_def)
qed

lemma run_inv:
  "\<forall>p\<in>set (pipesRef s). passed p \<longrightarrow> x p + PIPE_WIDTH < 50 \<Longrightarrow>
   \<forall>p\<in>set (pipesRef (run evs s)). passed p \<longrightarrow> x p + PIPE_WIDTH < 50"
  unfolding run_def
proof (induction evs arbitrary: s)
  case Nil
  then show ?case by simp
next
  case (Cons e evs)
  have "\<forall>p\<in>set (pipesRef (react e s)). passed p \<longrightarrow> x p + PIPE_WIDTH < 50"
    by (rule react_inv) (rule Cons.prems)
  then show ?case using Cons.IH by simp
qed

lemma passed_left_of_bird:
  "x pipe + PIPE_WIDTH < 50 \<Longrightarrow>
   \<not> collidesWithPipe (birdBox bird) (topPipeBox pipe) \<and>
   \<not> collidesWithPipe (birdBox bird) (bottomPipeBox canvas pipe)"
  by (simp add: collidesWithPipe_def birdBox_def topPipeBox_def bottomPipeBox_def)

text \<open>
  A short session on a canvas ten units wide, where the first obstacle is flagged on the
  ninth frame.
\<close>

lemma narrow_session:
  "pipesRef (run (Start 0 # map (\<lambda>i. Frame (Some \<lparr>width = 10, height = 600\<rparr>) (2000 + 16 * i) 0.5)
       [1..9]) initial) = [\<lparr>x = - 12.5, topHeight = 215, passed = True\<rparr>]"
  by (simp add: session_defs collision_defs game_constants upto_rec1)

subsection \<open>The tilt does not matter\<close>

lemma updateBird_rotation:
  "(updateBird (bird\<lparr> rotation := r \<rparr>))\<lparr> rotation := 0 \<rparr> = (updateBird bird)\<lparr> rotation := 0 \<rparr>"
  by (simp add: updateBird_def Let_def)

lemma checkCollision_updateBird_rotation:
  "checkCollision canvas (updateBird (bird\<lparr> rotation := r \<rparr>)) =
   checkCollision canvas (updateBird bird)"
  by (rule ext) (simp add: collision_defs updateBird_def Let_def)

lemma flat_flat: "flat (flat s) = flat s"
  by (simp add: flat_def)

lemma flat_react: "flat (react e (flat s)) = flat (react e s)"
proof (cases e)
  case (Frame canvasRef now rnd)
  show ?thesis
  proof (cases "gameState s = playing \<and> canvasRef \<noteq> None")
    case True
    then obtain canvas where c: "canvasRef = Some canvas" by auto
    from True have pl: "gameState s = playing" "gameState (flat s) = playing"
      by (simp_all add: flat_def)
    show ?thesis
      unfolding Frame c react.simps gameLoop_playing [OF pl(1)] gameLoop_playing [OF pl(2)]
      using updateBird_rotation [where bird = "birdRef s" and r = 0]
      by (simp add: flat_def spawnPipe_def Let_def checkCollision_updateBird_rotation)
  next
    case False
    then have "gameLoop canvasRef now rnd s = s" "gameLoop canvasRef now rnd (flat s) = flat s"
      by (auto simp: gameLoop_not_playing gameLoop_no_canvas flat_def)
    then show ?thesis by (simp add: Frame flat_flat)
  qed
next
  case (Start now)
  show ?thesis by (simp add: Start startGame_def Let_def flat_def)
next
  case Click
  show ?thesis by (simp add: Click handleClick_def flat_def)
next
  case (KeyDown code)
  show ?thesis by (simp add: KeyDown handleKeyPress_def handleClick_def flat_def)
next
  case ToggleMute
  show ?thesis by (simp add: ToggleMute toggleMute_def Let_def flat_def)
qed

lemma flat_run: "flat (run evs s) = fold flatStep evs (flat s)"
  unfolding run_def
proof (induction evs arbitrary: s)
  case Nil
  show ?case by simp
next
  case (Cons e evs)
  have "flat (fold react (e # evs) s) = fold flatStep evs (flat (react e s))"
    using Cons [of "react e s"] by simp
  also have "flat (react e s) = flatStep e (flat s)"
    by (simp add: flatStep_def flat_react)
  finally show ?case by simp
qed

text \<open>
  The state \<open>slowDevice\<close> leaves, up to the tilt, and the state after one more frame at
  10348 ms.
\<close>

lemma flat_fields:
  "gameState (flat s) = gameState s" "score (flat s) = score s"
  "highScore (flat s) = highScore s" "pipesRef (flat s) = pipesRef s"
  by (simp_all add: flat_def)

lemma slowDevice_state:
  "flat (run slowDevice initial) =
     \<lparr>gameState = playing, score = 0, highScore = 0, isMuted = False,
      birdRef = \<lparr>y = 278.4, velocity = - 6.8, rotation = 0\<rparr>,
      pipesRef =
        [\<lparr>x = - 10, topHeight = 215, passed = False\<rparr>,
         \<lparr>x = 77.5, topHeight = 327.7, passed = False\<rparr>,
         \<lparr>x = 165, topHeight = 215, passed = False\<rparr>,
         \<lparr>x = 252.5, topHeight = 215, passed = False\<rparr>,
         \<lparr>x = 340, topHeight = 215, passed = False\<rparr>],
      lastPipeSpawnRef = 9100, bgmPlaying = True\<rparr>"
  unfolding flat_run slowDevice_def
  by (simp add: flatStep_def flat_def session_defs collision_defs game_constants upto_rec1)

lemma slowDevice_last_frame:
  "flat (gameLoop (Some \<lparr>width = 400, height = 600\<rparr>) 10348 0.5 (run slowDevice initial)) =
     \<lparr>gameState = gameOver, score = 1, highScore = 0, isMuted = False,
      birdRef = \<lparr>y = 272, velocity = - 6.4, rotation = 0\<rparr>,
      pipesRef =
        [\<lparr>x = - 12.5, topHeight = 215, passed = True\<rparr>,
         \<lparr>x = 75, topHeight = 327.7, passed = False\<rparr>,
         \<lparr>x = 162.5, topHeight = 215, passed = False\<rparr>,
         \<lparr>x = 250, topHeight = 215, passed = False\<rparr>,
         \<lparr>x = 337.5, topHeight = 215, passed = False\<rparr>],
      lastPipeSpawnRef = 9100, bgmPlaying = True\<rparr>"
proof -
  have "flat (gameLoop (Some \<lparr>width = 400, height = 600\<rparr>) 10348 0.5 (run slowDevice initial)) =
      flat (gameLoop (Some \<lparr>width = 400, height = 600\<rparr>) 10348 0.5 (flat (run slowDevice initial)))"
    using flat_react [of "Frame (Some \<lparr>width = 400, height = 600\<rparr>) 10348 0.5"
        "run slowDevice initial"]
    by simp
  also have "\<dots> = \<lparr>gameState = gameOver, score = 1, highScore = 0, isMuted = False,
      birdRef = \<lparr>y = 272, velocity = - 6.4, rotation = 0\<rparr>,
      pipesRef =
        [\<lparr>x = - 12.5, topHeight = 215, passed = True\<rparr>,
         \<lparr>x = 75, topHeight = 327.7, passed = False\<rparr>,
         \<lparr>x = 162.5, topHeight = 215, passed = False\<rparr>,
         \<lparr>x = 250, topHeight = 215, passed = False\<rparr>,
         \<lparr>x = 337.5, topHeight = 215, passed = False\<rparr>],
      lastPipeSpawnRef = 9100, bgmPlaying = True\<rparr>"
    unfolding slowDevice_state
    by (simp add: flat_def session_defs collision_defs game_constants)
  finally show ?thesis .
qed

subsection \<open>The flag of an obstacle records its position\<close>

lemma movePipe_flag_iff:
  "(passed pipe \<longrightarrow> x pipe + PIPE_WIDTH < 50) \<Longrightarrow>
   passed (movePipe pipe) \<longleftrightarrow> x (movePipe pipe) + PIPE_WIDTH < 50"
  by (auto simp: movePipe_def PIPE_SPEED_def)

lemma react_flag_inv:
  assumes "\<forall>p\<in>set (pipesRef s). passed p \<longleftrightarrow> x p + PIPE_WIDTH < 50"
  shows "\<forall>p\<in>set (pipesRef (react e s)). passed p \<longleftrightarrow> x p + PIPE_WIDTH < 50"
proof (cases e)
  case (Frame canvasRef now rnd)
  show ?thesis
  proof (cases "gameState s = playing \<and> canvasRef \<noteq> None")
    case True
    then obtain canvas where c: "canvasRef = Some canvas" by auto
    from True have pl: "gameState s = playing" by simp
    have "passed (movePipe q) \<longleftrightarrow> x (movePipe q) + PIPE_WIDTH < 50"
      if "q \<in> set (pipesRef s) \<or> q = generatePipe canvas rnd" for q
    proof (rule movePipe_flag_iff)
      from that assms show "passed q \<longrightarrow> x q + PIPE_WIDTH < 50"
        by (auto simp: generatePipe_not_passed)
    qed
    then show ?thesis
      by (auto simp: Frame c gameLoop_pipesRef [OF pl] prunePipes_def)
  next
    case False
    then have "gameLoop canvasRef now rnd s = s"
      by (auto simp: gameLoop_not_playing gameLoop_no_canvas)
    with assms show ?thesis by (simp add: Frame)
  qed
next
  case (Start now)
  show ?thesis by (simp add: Start startGame_def Let_def)
next
  case Click
  with assms show ?thesis by (simp add: handleClick_def)
next
  case (KeyDown code)
  with assms show ?thesis by (simp add: handleKeyPress_def handleClick_def)
next
  case ToggleMute
  with assms show ?thesis by (simp add: toggleMute_def Let_def)
qed

lemma run_flag_inv:
  "\<forall>p\<in>set (pipesRef s). passed p \<longleftrightarrow> x p + PIPE_WIDTH < 50 \<Longrightarrow>
   \<forall>p\<in>set (pipesRef (run evs s)). passed p \<longleftrightarrow> x p + PIPE_WIDTH < 50"
  unfolding run_def
proof (induction evs arbitrary: s)
  case Nil
  then show ?case by simp
next
  case (Cons e evs)
  have "\<forall>p\<in>set (pipesRef (react e s)). passed p \<longleftrightarrow> x p + PIPE_WIDTH < 50"
    by (rule react_flag_inv) (rule Cons.prems)
  then show ?case using Cons.IH by simp
qed

lemma reachable_flag_iff:
  "p \<in> set (pipesRef (run evs initial)) \<Longrightarrow> passed p \<longleftrightarrow> x p + 60 < 50"
  using run_flag_inv [of initial evs] by (simp add: initial_def PIPE_WIDTH_def)

lemma reachable_crossing:
  assumes "0 \<le> width canvas"
  shows "filter crossing (prunePipes (if now - lastPipeSpawnRef (run evs initial) > 1800
            then pipesRef (run evs initial) @ [generatePipe canvas rnd]
            else pipesRef (run evs initial))) =
         filter (\<lambda>p. 50 \<le> x p + 60 \<and> x p - 2.5 + 60 < 50)
           (prunePipes (if now - lastPipeSpawnRef (run evs initial) > 1800
            then pipesRef (run evs initial) @ [generatePipe canvas rnd]
            else pipesRef (run evs initial)))"
proof (rule filter_cong [OF refl])
  fix p
  assume "p \<in> set (prunePipes (if now - lastPipeSpawnRef (run evs initial) > 1800
            then pipesRef (run evs initial) @ [generatePipe canvas rnd]
            else pipesRef (run evs initial)))"
  then consider "p \<in> set (pipesRef (run evs initial))" | "p = generatePipe canvas rnd"
    by (auto simp: prunePipes_def split: if_splits)
  then show "crossing p = (50 \<le> x p + 60 \<and> x p - 2.5 + 60 < 50)"
  proof cases
    case 1
    from reachable_flag_iff [OF 1] show ?thesis
      by (auto simp: crossing_def game_constants)
  next
    case 2
    with assms show ?thesis
      by (auto simp: crossing_def game_constants generatePipe_def Let_def)
  qed
qed

text \<open>The narrow session one frame earlier, before its obstacle is flagged.\<close>

lemma run_append: "run (evs @ evs') s = run evs' (run evs s)"
  by (simp add: run_def)

lemma narrow_session_before:
  "run (Start 0 # map (\<lambda>i. Frame (Some \<lparr>width = 10, height = 600\<rparr>) (2000 + 16 * i) 0.5)
       [1..8]) initial =
     \<lparr>gameState = playing, score = 0, highScore = 0, isMuted = False,
      birdRef = \<lparr>y = 314.4, velocity = 3.2, rotation = 287420489 / 6250000000\<rparr>,
      pipesRef = [\<lparr>x = - 10, topHeight = 215, passed = False\<rparr>],
      lastPipeSpawnRef = 2016, bgmPlaying = True\<rparr>"
  by (simp add: session_defs collision_defs game_constants upto_rec1)

section \<open>The claims\<close>

text \<open>
  Claim C1 (world bounds on a frame with no obstacle). The claim wants every frame on
  which the bird is at or beyond the top or the bottom of the canvas to end the run, also
  when the obstacle list is empty. \<open>gameLoop\<close> asks \<open>checkCollision\<close> once per obstacle
  only, so with no obstacle nothing is asked. In the session below the player starts a run
  and never clicks: after 37 frames, 592 ms into the run and before the first spawn, the
  bird's bottom edge is below the 600-unit canvas, the list is empty and the state is
  still \<open>playing\<close>.
\<close>

theorem gameLoop_misses_bounds_without_pipes:
  "(let s = run (Start 0 # map (\<lambda>i. Frame (Some \<lparr>width = 400, height = 600\<rparr>) (16 * i) 0.5)
                 [1..37]) initial
    in gameState s = playing \<and> pipesRef s = [] \<and> 600 \<le> y (birdRef s) + BIRD_SIZE)"
  by (simp add: session_defs collision_defs game_constants upto_rec1)

text \<open>
  Claim C2 (high score on game over). The claim wants the high score to become the
  maximum of the previous high score and the final score, the obstacles passed on the
  fatal frame included. Line 217 reads the \<open>score\<close> of the callback's closure, which the
  \<open>setScore\<close> calls of the same frame do not reach. After the session \<open>slowDevice\<close> the
  run is on with score 0 and high score 0, the first obstacle stands at \<open>- 10\<close> and the
  second at 77.5. On the next frame the first obstacle is passed and the second reaches
  the bird, whose box is level with its top segment: the run ends with score 1 and high
  score 0.
\<close>

theorem gameLoop_highScore_stale:
  "gameState (run slowDevice initial) = playing \<and>
   score (run slowDevice initial) = 0 \<and> highScore (run slowDevice initial) = 0 \<and>
   gameState (gameLoop (Some \<lparr>width = 400, height = 600\<rparr>) 10348 0.5
     (run slowDevice initial)) = gameOver \<and>
   score (gameLoop (Some \<lparr>width = 400, height = 600\<rparr>) 10348 0.5
     (run slowDevice initial)) = 1 \<and>
   highScore (gameLoop (Some \<lparr>width = 400, height = 600\<rparr>) 10348 0.5
     (run slowDevice initial)) = 0"
proof -
  have "gameState (flat (run slowDevice initial)) = playing"
    "score (flat (run slowDevice initial)) = 0" "highScore (flat (run slowDevice initial)) = 0"
    unfolding slowDevice_state by simp_all
  moreover have
    "gameState (flat (gameLoop (Some \<lparr>width = 400, height = 600\<rparr>) 10348 0.5
       (run slowDevice initial))) = gameOver"
    "score (flat (gameLoop (Some \<lparr>width = 400, height = 600\<rparr>) 10348 0.5
       (run slowDevice initial))) = 1"
    "highScore (flat (gameLoop (Some \<lparr>width = 400, height = 600\<rparr>) 10348 0.5
       (run slowDevice initial))) = 0"
    unfolding slowDevice_last_frame by simp_all
  ultimately show ?thesis
    unfolding flat_fields by simp
qed

text \<open>
  Claim C3 (the collision detector). \<open>checkCollision\<close> holds exactly when the bird's box
  inset by 5 overlaps the top segment or the bottom segment of the obstacle on both axes,
  or the full box reaches the top or the bottom of the canvas (\<open>specCollision\<close>, written
  from the specification; boxes that touch overlap, and a box at a bound has reached it).
  It is false when the inset box is strictly inside the gap and the full box strictly
  inside the canvas, and so for \<open>topHeight = 200\<close> on a canvas 600 high whenever the inset
  box stays between 205 and 365, which the full box staying there implies.
\<close>

theorem checkCollision_spec:
  "(checkCollision canvas bird pipe \<longleftrightarrow> specCollision canvas bird pipe) \<and>
   (topHeight pipe < y bird + 5 \<and> y bird + 25 < topHeight pipe + 170 \<and>
      0 < y bird \<and> y bird + 30 < height canvas \<longrightarrow> \<not> checkCollision canvas bird pipe) \<and>
   (topHeight pipe = 200 \<and> height canvas = 600 \<and> 205 \<le> y bird + 5 \<and> y bird + 25 \<le> 365
      \<longrightarrow> \<not> checkCollision canvas bird pipe)"
  by (auto simp: collision_defs specCollision_def fullBox_def inset_def overlapOnBothAxes_def
      game_constants)

theorem checkCollision_spec_witness:
  "topHeight \<lparr>x = 50, topHeight = 200, passed = False\<rparr> = 200 \<and>
   height \<lparr>width = 400, height = 600\<rparr> = 600 \<and>
   (205::real) \<le> y \<lparr>y = 250, velocity = 0, rotation = 0\<rparr> + 5 \<and>
   y \<lparr>y = 250, velocity = 0, rotation = 0\<rparr> + 25 \<le> (365::real) \<and>
   \<not> checkCollision \<lparr>width = 400, height = 600\<rparr> \<lparr>y = 250, velocity = 0, rotation = 0\<rparr>
       \<lparr>x = 50, topHeight = 200, passed = False\<rparr> \<and>
   \<not> specCollision \<lparr>width = 400, height = 600\<rparr> \<lparr>y = 250, velocity = 0, rotation = 0\<rparr>
       \<lparr>x = 50, topHeight = 200, passed = False\<rparr>"
  using checkCollision_spec [of "\<lparr>width = 400, height = 600\<rparr>"
      "\<lparr>y = 250, velocity = 0, rotation = 0\<rparr>" "\<lparr>x = 50, topHeight = 200, passed = False\<rparr>"]
  by auto

text \<open>
  Claim C4 (one point per obstacle). One pass of the \<open>forEach\<close> loop adds to the score
  the number of obstacles that are not yet flagged and whose right edge, after the move of
  this frame, is strictly left of 50 (\<open>crossing\<close>); it flags exactly those and leaves every
  flag that was set (\<open>movePipe\<close>). Over any number \<open>n\<close> of frames one obstacle adds 1 if
  it started unflagged and its right edge is left of 50 after the \<open>n\<close>-th move, and 0
  otherwise: never more than 1, and nothing once it is flagged.

  A frame that runs adds to the score cell the count of crossing obstacles among those
  the filter kept, and stores in \<open>pipesRef\<close> those obstacles moved, with the flags set. In
  every state a session reaches from the initial values an obstacle of the list is
  flagged exactly when its right edge is strictly left of 50. So on a frame of such a
  session, on a canvas of non-negative width, the score grows by the number of obstacles
  whose right edge is at or right of 50 before the move and strictly left of it after:
  positions only decrease, so this happens on one frame in the life of an obstacle.
\<close>

theorem scoring_once_per_pipe:
  "scrollPipes ps sc = (map movePipe ps, sc + int (length (filter crossing ps))) \<and>
   scrollFrames n pipe sc =
     (pipe\<lparr> x := x pipe - real n * 2.5,
            passed := (passed pipe \<or> (0 < n \<and> x pipe - real n * 2.5 + 60 < 50)) \<rparr>,
      sc + (if \<not> passed pipe \<and> 0 < n \<and> x pipe - real n * 2.5 + 60 < 50 then 1 else 0)) \<and>
   (gameState s = playing \<longrightarrow>
      score (gameLoop (Some canvas) now rnd s) =
        score s + int (length (filter crossing
          (prunePipes (if now - lastPipeSpawnRef s > 1800
                       then pipesRef s @ [generatePipe canvas rnd] else pipesRef s)))) \<and>
      pipesRef (gameLoop (Some canvas) now rnd s) =
        map movePipe
          (prunePipes (if now - lastPipeSpawnRef s > 1800
                       then pipesRef s @ [generatePipe canvas rnd] else pipesRef s))) \<and>
   (\<forall>p\<in>set (pipesRef (run evs initial)). passed p \<longleftrightarrow> x p + 60 < 50) \<and>
   (gameState (run evs initial) = playing \<and> 0 \<le> width canvas \<longrightarrow>
      score (gameLoop (Some canvas) now rnd (run evs initial)) =
        score (run evs initial) +
        int (length (filter (\<lambda>p. 50 \<le> x p + 60 \<and> x p - 2.5 + 60 < 50)
          (prunePipes (if now - lastPipeSpawnRef (run evs initial) > 1800
                       then pipesRef (run evs initial) @ [generatePipe canvas rnd]
                       else pipesRef (run evs initial))))))"
proof -
  have frames: "scrollFrames n pipe sc =
     (pipe\<lparr> x := x pipe - real n * 2.5,
            passed := (passed pipe \<or> (0 < n \<and> x pipe - real n * 2.5 + 60 < 50)) \<rparr>,
      sc + (if \<not> passed pipe \<and> 0 < n \<and> x pipe - real n * 2.5 + 60 < 50 then 1 else 0))"
    using scrollFrames_eq [of n pipe sc] by (simp add: game_constants)
  have session: "gameState (run evs initial) = playing \<and> 0 \<le> width canvas \<longrightarrow>
      score (gameLoop (Some canvas) now rnd (run evs initial)) =
        score (run evs initial) +
        int (length (filter (\<lambda>p. 50 \<le> x p + 60 \<and> x p - 2.5 + 60 < 50)
          (prunePipes (if now - lastPipeSpawnRef (run evs initial) > 1800
                       then pipesRef (run evs initial) @ [generatePipe canvas rnd]
                       else pipesRef (run evs initial)))))"
    using reachable_crossing [of canvas now evs rnd]
    by (simp add: gameLoop_score)
  show ?thesis
    using frames session reachable_flag_iff [of _ evs]
    by (simp add: scrollPipes_eq gameLoop_score gameLoop_pipesRef)
qed

theorem scoring_once_per_pipe_witness:
  "gameState (run (Start 0 # map (\<lambda>i. Frame (Some \<lparr>width = 10, height = 600\<rparr>) (2000 + 16 * i) 0.5)
       [1..8]) initial) = playing \<and>
   0 \<le> width \<lparr>width = 10, height = 600\<rparr> \<and>
   \<lparr>x = - 10, topHeight = 215, passed = False\<rparr> \<in> set (pipesRef
     (run (Start 0 # map (\<lambda>i. Frame (Some \<lparr>width = 10, height = 600\<rparr>) (2000 + 16 * i) 0.5)
       [1..8]) initial)) \<and>
   score (run (Start 0 # map (\<lambda>i. Frame (Some \<lparr>width = 10, height = 600\<rparr>) (2000 + 16 * i) 0.5)
       [1..8]) initial) = 0 \<and>
   score (gameLoop (Some \<lparr>width = 10, height = 600\<rparr>) 2144 0.5
     (run (Start 0 # map (\<lambda>i. Frame (Some \<lparr>width = 10, height = 600\<rparr>) (2000 + 16 * i) 0.5)
       [1..8]) initial)) = 1 \<and>
   pipesRef (gameLoop (Some \<lparr>width = 10, height = 600\<rparr>) 2144 0.5
     (run (Start 0 # map (\<lambda>i. Frame (Some \<lparr>width = 10, height = 600\<rparr>) (2000 + 16 * i) 0.5)
       [1..8]) initial)) = [\<lparr>x = - 12.5, topHeight = 215, passed = True\<rparr>] \<and>
   score (gameLoop (Some \<lparr>width = 10, height = 600\<rparr>) 2160 0.5
     (run ((Start 0 # map (\<lambda>i. Frame (Some \<lparr>width = 10, height = 600\<rparr>) (2000 + 16 * i) 0.5)
       [1..8]) @ [Frame (Some \<lparr>width = 10, height = 600\<rparr>) 2144 0.5]) initial)) = 1"
  using scoring_once_per_pipe [where
      s = "run (Start 0 # map (\<lambda>i. Frame (Some \<lparr>width = 10, height = 600\<rparr>) (2000 + 16 * i) 0.5)
        [1..8]) initial"
      and evs = "Start 0 # map (\<lambda>i. Frame (Some \<lparr>width = 10, height = 600\<rparr>) (2000 + 16 * i) 0.5)
        [1..8]"
      and canvas = "\<lparr>width = 10, height = 600\<rparr>" and now = 2144 and rnd = "0.5"
      and ps = "[]" and sc = 0 and n = 0 and pipe = "\<lparr>x = - 10, topHeight = 215, passed = False\<rparr>"]
    scoring_once_per_pipe [where
      s = "run ((Start 0 # map (\<lambda>i. Frame (Some \<lparr>width = 10, height = 600\<rparr>) (2000 + 16 * i) 0.5)
        [1..8]) @ [Frame (Some \<lparr>width = 10, height = 600\<rparr>) 2144 0.5]) initial"
      and evs = "(Start 0 # map (\<lambda>i. Frame (Some \<lparr>width = 10, height = 600\<rparr>) (2000 + 16 * i) 0.5)
        [1..8]) @ [Frame (Some \<lparr>width = 10, height = 600\<rparr>) 2144 0.5]"
      and canvas = "\<lparr>width = 10, height = 600\<rparr>" and now = 2160 and rnd = "0.5"
      and ps = "[]" and sc = 0 and n = 0 and pipe = "\<lparr>x = - 10, topHeight = 215, passed = False\<rparr>"]
  unfolding run_append narrow_session_before
  by (simp add: session_defs collision_defs game_constants movePipe_def crossing_def)

text \<open>
  Claim C5 (gravity). On every frame that runs (state \<open>playing\<close>, canvas present) the new
  velocity is the old one plus 0.4 and the new position is the old one plus the new
  velocity; from position 300 and velocity 0 the frame gives velocity 0.4 and position
  300.4. A click is an event of its own, so no impulse falls inside a frame.
\<close>

theorem gravity_step:
  "(gameState s = playing \<longrightarrow>
      velocity (birdRef (gameLoop (Some canvas) now rnd s)) = velocity (birdRef s) + 0.4 \<and>
      y (birdRef (gameLoop (Some canvas) now rnd s)) =
        y (birdRef s) + velocity (birdRef (gameLoop (Some canvas) now rnd s))) \<and>
   (gameState s = playing \<and> y (birdRef s) = 300 \<and> velocity (birdRef s) = 0 \<longrightarrow>
      velocity (birdRef (gameLoop (Some canvas) now rnd s)) = 0.4 \<and>
      y (birdRef (gameLoop (Some canvas) now rnd s)) = 300.4)"
  by (simp add: gameLoop_birdRef updateBird_def GRAVITY_def Let_def)

theorem gravity_step_witness:
  "gameState (startGame 0 initial) = playing \<and>
   y (birdRef (startGame 0 initial)) = 300 \<and> velocity (birdRef (startGame 0 initial)) = 0 \<and>
   velocity (birdRef (gameLoop (Some \<lparr>width = 400, height = 600\<rparr>) 16 0.5 (startGame 0 initial)))
     = 0.4 \<and>
   y (birdRef (gameLoop (Some \<lparr>width = 400, height = 600\<rparr>) 16 0.5 (startGame 0 initial)))
     = 300.4"
  using gravity_step [of "startGame 0 initial" "\<lparr>width = 400, height = 600\<rparr>" 16 "0.5"]
  by (simp add: startGame_def initial_def Let_def)

text \<open>
  Claim C6 (impulse). While the state is \<open>playing\<close> a click sets the velocity to \<open>- 8\<close>,
  whatever it was, and changes nothing else; in the states \<open>idle\<close> and \<open>gameOver\<close> a click
  changes nothing at all. Pressing the key with code \<open>Space\<close> is a click.
\<close>

theorem impulse:
  "(gameState s = playing \<longrightarrow>
      handleClick s = s\<lparr> birdRef := (birdRef s)\<lparr> velocity := - 8 \<rparr> \<rparr> \<and>
      velocity (birdRef (handleClick s)) = - 8) \<and>
   (gameState s \<noteq> playing \<longrightarrow> handleClick s = s) \<and>
   handleKeyPress ''Space'' s = handleClick s"
  by (simp add: handleClick_def handleKeyPress_def JUMP_FORCE_def)

theorem impulse_witness:
  "gameState (startGame 0 initial) = playing \<and>
   velocity (birdRef (handleClick (startGame 0 initial))) = - 8 \<and>
   gameState initial \<noteq> playing \<and> handleClick initial = initial \<and>
   handleKeyPress ''Space'' initial = initial"
  using impulse [of "startGame 0 initial"] impulse [of initial]
  by (simp add: startGame_def initial_def Let_def)

text \<open>
  Claim C7 (unmuting). The claim says that unmuting starts the background track only
  while the state is \<open>playing\<close>. \<open>toggleMute\<close> does not look at the game state: muted and
  idle, before any run, one press of the mute button asks the track to play.
\<close>

theorem unmute_idle_plays_bgm:
  "gameState (run [ToggleMute] initial) = idle \<and> isMuted (run [ToggleMute] initial) \<and>
   \<not> bgmPlaying (run [ToggleMute] initial) \<and>
   bgmPlaying (toggleMute (run [ToggleMute] initial))"
  by (simp add: run_def toggleMute_def initial_def Let_def)

text \<open>
  Claim C7 as amended: in every game state, toggling from muted to unmuted asks the
  background track to play and toggling from unmuted to muted pauses it; the game state
  is not changed.
\<close>

theorem toggleMute_bgm:
  "(isMuted s \<longrightarrow> bgmPlaying (toggleMute s) \<and> \<not> isMuted (toggleMute s)) \<and>
   (\<not> isMuted s \<longrightarrow> \<not> bgmPlaying (toggleMute s) \<and> isMuted (toggleMute s)) \<and>
   gameState (toggleMute s) = gameState s"
  by (simp add: toggleMute_def Let_def)

theorem toggleMute_bgm_witness:
  "isMuted (toggleMute initial) \<and> gameState (toggleMute initial) = idle \<and>
   bgmPlaying (toggleMute (toggleMute initial)) \<and>
   \<not> isMuted (toggleMute (toggleMute initial)) \<and>
   \<not> isMuted initial \<and> \<not> bgmPlaying (toggleMute initial)"
  using toggleMute_bgm [of "toggleMute initial"] toggleMute_bgm [of initial]
  by (simp add: initial_def)

text \<open>
  Claim C8 (the spawner). A generated obstacle stands at the canvas width, is not
  flagged, and its gap is 170 high. On a canvas 600 high, for every draw in \<open>[0, 1)\<close>, its
  \<open>topHeight\<close> is between 100 and 330, so both segments are at least 100 high. A frame
  that runs appends a generated obstacle, and resets the spawn time, exactly when more
  than 1800 ms have passed since the last spawn; otherwise the list it filters and
  scrolls is the old one.
\<close>

theorem spawn_contract:
  "x (generatePipe canvas rnd) = width canvas \<and> \<not> passed (generatePipe canvas rnd) \<and>
   top' (bottomPipeBox canvas (generatePipe canvas rnd)) -
     bottom (topPipeBox (generatePipe canvas rnd)) = 170 \<and>
   (0 \<le> rnd \<and> rnd < 1 \<and> height canvas = 600 \<longrightarrow>
      100 \<le> topHeight (generatePipe canvas rnd) \<and> topHeight (generatePipe canvas rnd) \<le> 330 \<and>
      100 \<le> 600 - 170 - topHeight (generatePipe canvas rnd)) \<and>
   (gameState s = playing \<longrightarrow>
      pipesRef (gameLoop (Some canvas) now rnd s) =
        map movePipe (prunePipes (if now - lastPipeSpawnRef s > 1800
                                  then pipesRef s @ [generatePipe canvas rnd] else pipesRef s)) \<and>
      lastPipeSpawnRef (gameLoop (Some canvas) now rnd s) =
        (if now - lastPipeSpawnRef s > 1800 then now else lastPipeSpawnRef s))"
proof -
  have "0 \<le> rnd \<Longrightarrow> rnd < 1 \<Longrightarrow> 0 \<le> rnd * 230 \<and> rnd * 230 < 230"
    by simp
  then show ?thesis
    by (auto simp: generatePipe_def topPipeBox_def bottomPipeBox_def PIPE_GAP_def Let_def
        gameLoop_pipesRef gameLoop_lastPipeSpawnRef)
qed

theorem spawn_contract_witness:
  "gameState (startGame 0 initial) = playing \<and> (0::real) \<le> 0.5 \<and> (0.5::real) < 1 \<and>
   height \<lparr>width = 400, height = 600\<rparr> = 600 \<and>
   topHeight (generatePipe \<lparr>width = 400, height = 600\<rparr> 0.5) = 215 \<and>
   pipesRef (gameLoop (Some \<lparr>width = 400, height = 600\<rparr>) 1801 0.5 (startGame 0 initial)) =
     [\<lparr>x = 397.5, topHeight = 215, passed = False\<rparr>] \<and>
   pipesRef (gameLoop (Some \<lparr>width = 400, height = 600\<rparr>) 1800 0.5 (startGame 0 initial)) = []"
  using spawn_contract [of "\<lparr>width = 400, height = 600\<rparr>" "0.5" "startGame 0 initial" 1801]
    spawn_contract [of "\<lparr>width = 400, height = 600\<rparr>" "0.5" "startGame 0 initial" 1800]
  by (simp add: startGame_def initial_def generatePipe_def prunePipes_def movePipe_def
      game_constants Let_def)

text \<open>
  Claim C9 (pruning). On a frame that runs, the list (after the spawn check) is filtered,
  in order, to the obstacles whose position is above \<open>- 60\<close>, and those are then moved by
  2.5. The filter reads the position the previous frame left, so an obstacle alone in the
  list is gone after frame \<open>n + 1\<close> exactly when its position after \<open>n\<close> frames is at most
  \<open>- 60\<close>. From position 400 it is at \<open>- 60\<close> after 184 frames, still in the list, and the
  list is empty from frame 185 on.
\<close>

theorem pruning:
  "(gameState s = playing \<longrightarrow>
      pipesRef (gameLoop (Some canvas) now rnd s) =
        map movePipe (filter (\<lambda>pipe. - 60 < x pipe)
          (if now - lastPipeSpawnRef s > 1800
           then pipesRef s @ [generatePipe canvas rnd] else pipesRef s))) \<and>
   x (movePipe pipe) = x pipe - 2.5 \<and>
   x ((movePipe ^^ n) pipe) = x pipe - real n * 2.5 \<and>
   (pipesAfter (Suc n) [pipe] = [] \<longleftrightarrow> x pipe - real n * 2.5 \<le> - 60) \<and>
   (x pipe = 400 \<longrightarrow>
      pipesAfter n [pipe] = (if n \<le> 184 then [(movePipe ^^ n) pipe] else []))"
proof -
  have "x pipe = 400 \<Longrightarrow> n \<noteq> 0 \<Longrightarrow>
      (- 60 < x pipe - real (n - 1) * 2.5) = (n \<le> 184)"
    by (cases n) auto
  then show ?thesis
    using pipesAfter_single [of n pipe] pipesAfter_single [of "Suc n" pipe]
      movePipe_funpow_x [of n pipe]
    by (auto simp: gameLoop_pipesRef prunePipes_def movePipe_x PIPE_SPEED_def PIPE_WIDTH_def)
qed

theorem pruning_witness:
  "gameState (startGame 0 initial) = playing \<and>
   pipesRef (gameLoop (Some \<lparr>width = 400, height = 600\<rparr>) 16 0.5
     ((startGame 0 initial)\<lparr> pipesRef := [\<lparr>x = - 60, topHeight = 215, passed = True\<rparr>,
                                          \<lparr>x = - 57.5, topHeight = 215, passed = True\<rparr>,
                                          \<lparr>x = 210, topHeight = 215, passed = False\<rparr>] \<rparr>)) =
     [\<lparr>x = - 60, topHeight = 215, passed = True\<rparr>,
      \<lparr>x = 207.5, topHeight = 215, passed = False\<rparr>] \<and>
   x \<lparr>x = 400, topHeight = 215, passed = False\<rparr> = 400 \<and>
   pipesAfter 184 [\<lparr>x = 400, topHeight = 215, passed = False\<rparr>] =
     [(movePipe ^^ 184) \<lparr>x = 400, topHeight = 215, passed = False\<rparr>] \<and>
   x ((movePipe ^^ 184) \<lparr>x = 400, topHeight = 215, passed = False\<rparr>) = - 60 \<and>
   pipesAfter 185 [\<lparr>x = 400, topHeight = 215, passed = False\<rparr>] = []"
  using pruning [of "(startGame 0 initial)\<lparr> pipesRef := [\<lparr>x = - 60, topHeight = 215, passed = True\<rparr>,
                                          \<lparr>x = - 57.5, topHeight = 215, passed = True\<rparr>,
                                          \<lparr>x = 210, topHeight = 215, passed = False\<rparr>] \<rparr>"
      "\<lparr>width = 400, height = 600\<rparr>" 16 "0.5" "\<lparr>x = 400, topHeight = 215, passed = False\<rparr>" 184]
    pruning [of "startGame 0 initial" "\<lparr>width = 400, height = 600\<rparr>" 16 "0.5"
      "\<lparr>x = 400, topHeight = 215, passed = False\<rparr>" 185]
  by (simp add: startGame_def initial_def movePipe_def game_constants Let_def)

text \<open>
  Claim C10 (a flagged obstacle cannot hit the bird). In every state a session can reach
  from the initial values, every flagged obstacle of the list has its right edge strictly
  left of 50, while the left edge of the bird's inset box is 55. So for every bird and
  every canvas neither segment of such an obstacle overlaps the bird's box, and
  \<open>checkCollision\<close> on it holds exactly when the world-bounds check does.
\<close>

theorem passed_pipe_never_collides:
  "pipe \<in> set (pipesRef (run evs initial)) \<Longrightarrow> passed pipe \<Longrightarrow>
     x pipe + 60 < 50 \<and>
     \<not> collidesWithPipe (birdBox bird) (topPipeBox pipe) \<and>
     \<not> collidesWithPipe (birdBox bird) (bottomPipeBox canvas pipe) \<and>
     (checkCollision canvas bird pipe \<longleftrightarrow> y bird \<le> 0 \<or> height canvas \<le> y bird + 30)"
proof -
  assume mem: "pipe \<in> set (pipesRef (run evs initial))" and flag: "passed pipe"
  have "\<forall>p\<in>set (pipesRef (run evs initial)). passed p \<longrightarrow> x p + PIPE_WIDTH < 50"
    by (rule run_inv) (simp add: initial_def)
  with mem flag have left: "x pipe + PIPE_WIDTH < 50" by blast
  from passed_left_of_bird [OF left, of bird canvas] left show ?thesis
    by (simp add: checkCollision_def PIPE_WIDTH_def BIRD_SIZE_def)
qed

theorem passed_pipe_never_collides_witness:
  "\<lparr>x = - 12.5, topHeight = 215, passed = True\<rparr> \<in> set (pipesRef
     (run (Start 0 # map (\<lambda>i. Frame (Some \<lparr>width = 10, height = 600\<rparr>) (2000 + 16 * i) 0.5)
       [1..9]) initial)) \<and>
   passed \<lparr>x = - 12.5, topHeight = 215, passed = True\<rparr> \<and>
   \<not> checkCollision \<lparr>width = 10, height = 600\<rparr> \<lparr>y = 100, velocity = 0, rotation = 0\<rparr>
     \<lparr>x = - 12.5, topHeight = 215, passed = True\<rparr> \<and>
   checkCollision \<lparr>width = 10, height = 600\<rparr> \<lparr>y = 570, velocity = 0, rotation = 0\<rparr>
     \<lparr>x = - 12.5, topHeight = 215, passed = True\<rparr>"
proof -
  have mem: "\<lparr>x = - 12.5, topHeight = 215, passed = True\<rparr> \<in> set (pipesRef
     (run (Start 0 # map (\<lambda>i. Frame (Some \<lparr>width = 10, height = 600\<rparr>) (2000 + 16 * i) 0.5)
       [1..9]) initial))"
    unfolding narrow_session by simp
  have flag: "passed \<lparr>x = - 12.5, topHeight = 215, passed = True\<rparr>"
    by simp
  show ?thesis
    using mem
      passed_pipe_never_collides [OF mem flag, of "\<lparr>y = 100, velocity = 0, rotation = 0\<rparr>"
        "\<lparr>width = 10, height = 600\<rparr>"]
      passed_pipe_never_collides [OF mem flag, of "\<lparr>y = 570, velocity = 0, rotation = 0\<rparr>"
        "\<lparr>width = 10, height = 600\<rparr>"]
    by simp
qed

end
